theory Spec2Isabelle
  imports Main
begin

section \<open>Data model (python_models.py and the rows used by main.py)\<close>

text \<open>
  The three string enumerations of \<^verbatim>\<open>python_models.py\<close>. The database columns
  \<^verbatim>\<open>User.status\<close> and \<^verbatim>\<open>Transaction.status\<close> only ever receive members of these
  enumerations (\<^verbatim>\<open>post_user\<close> writes "ACTIVE", \<^verbatim>\<open>patch_user\<close> writes a
  \<^verbatim>\<open>UserStatusEnum\<close>, \<^verbatim>\<open>post_transaction\<close> writes "PROCESSED" and
  \<^verbatim>\<open>patch_rollback_transaction\<close> writes "ROLLBACKED").
\<close>

datatype CurrencyEnum = USD | EUR | AUD | CAD | ARS | PLN | BTC | ETH | DOGE | USDT

datatype UserStatusEnum = ACTIVE | BLOCKED

datatype TransactionStatusEnum = PROCESSED | ROLLBACKED

text \<open>
  Amounts are Python numbers (\<^verbatim>\<open>float\<close> in the request model). The model is polymorphic in
  the type \<open>'a\<close> of amounts and uses on it exactly the operations the code uses:
  \<open>+\<close> in \<^verbatim>\<open>post_transaction\<close>, \<open>-\<close> in \<^verbatim>\<open>patch_rollback_transaction\<close>, the comparison
  with \<open>0\<close> in both and the comparison with \<open>1\<close> in the request model. The conversion
  \<^verbatim>\<open>float(user_balance.amount)\<close> is the identity on \<open>'a\<close>. Theorems say in their types
  which laws of arithmetic they rely on.
\<close>

record User =
  user_email :: string
  user_status :: UserStatusEnum
  user_created :: int

record 'a Transaction =
  tx_id :: int
  tx_user_id :: int
  tx_currency :: CurrencyEnum
  tx_amount :: 'a
  tx_status :: TransactionStatusEnum
  tx_created :: int

record 'a RequestTransactionModel =
  rq_currency :: CurrencyEnum
  rq_amount :: 'a

text \<open>
  Modelled from the spec: the table declarations of module \<^verbatim>\<open>db_models\<close>, which the
  handlers import. Users are found by primary key (\<^verbatim>\<open>session.get(User, user_id)\<close>), a
  balance is keyed by \<open>(user_id, currency)\<close> and holds the amount, and transactions are
  rows that are never deleted, kept in insertion order and found by their \<open>id\<close>.
\<close>

record 'a db =
  users :: "int \<rightharpoonup> User"
  user_balance :: "(int \<times> CurrencyEnum) \<rightharpoonup> 'a"
  transactions :: "'a Transaction list"

text \<open>
  Exceptions. The \<^verbatim>\<open>detail\<close> f-strings are kept as their template together with the
  values they interpolate; the first argument of an exception is its \<^verbatim>\<open>status_code\<close>.
\<close>

datatype detail =
    User_does_not_exist int
  | User_is_blocked int
  | User_does_not_have_balance_in CurrencyEnum
  | Negative_balance
  | User_is_BLOCKED int
  | Transaction_does_not_exist int
  | Transaction_does_not_belong_to_user int int
  | Transaction_is_already_rollbacked int
  | Balance_not_found
  | Balance_can_not_be_negative

datatype exn =
    HTTPException nat detail
  | TransactionNotExistsException nat detail
  | TransactionDoesNotBelongToUserException nat detail
  | TransactionAlreadyRollbackedException nat detail

text \<open>
  What a handler hands back to the framework when it does not raise:
  \<^verbatim>\<open>post_transaction\<close> returns either a \<^verbatim>\<open>Transaction\<close> row or, on one path, an
  exception object as an ordinary value. A raised exception is \<open>Inl\<close>, a returned value
  is \<open>Inr\<close>.
\<close>

datatype 'a returned =
    Returned_exception exn
  | Returned_transaction "'a Transaction"

section \<open>The store operations the handlers use\<close>

text \<open>
  \<^verbatim>\<open>select(Transaction).where(Transaction.id == transaction_id)\<close> followed by
  \<^verbatim>\<open>scalar_one_or_none()\<close>.
\<close>

definition select_transaction :: "'a Transaction list \<Rightarrow> int \<Rightarrow> 'a Transaction option" where
  "select_transaction ts transaction_id = find (\<lambda>t. tx_id t = transaction_id) ts"

text \<open>
  The identifier the database gives to an inserted row: larger than every identifier
  in the table, starting at 1.
\<close>

definition next_id :: "'a Transaction list \<Rightarrow> int" where
  "next_id ts = fold max (map tx_id ts) 0 + 1"

text \<open>The \<^verbatim>\<open>UPDATE\<close> of the status column of the row with the given identifier.\<close>

fun set_rollbacked :: "int \<Rightarrow> 'a Transaction list \<Rightarrow> 'a Transaction list" where
  "set_rollbacked transaction_id [] = []"
| "set_rollbacked transaction_id (t # ts) =
     (if tx_id t = transaction_id then t\<lparr>tx_status := ROLLBACKED\<rparr> # ts
      else t # set_rollbacked transaction_id ts)"

section \<open>main.py: post_transaction (Apply)\<close>

definition post_transaction ::
  "int \<Rightarrow> int \<Rightarrow> 'a::{plus,zero,ord} RequestTransactionModel \<Rightarrow> 'a db
     \<Rightarrow> (exn + 'a returned) \<times> 'a db" where
  "post_transaction now user_id transaction s =
     (case users s user_id of
        None \<Rightarrow> (Inr (Returned_exception (HTTPException 404 (User_does_not_exist user_id))), s)
      | Some user \<Rightarrow>
          if user_status user \<noteq> ACTIVE
          then (Inl (HTTPException 400 (User_is_blocked user_id)), s)
          else
            (case user_balance s (user_id, rq_currency transaction) of
               None \<Rightarrow>
                 (Inl (HTTPException 404
                         (User_does_not_have_balance_in (rq_currency transaction))), s)
             | Some amount \<Rightarrow>
                 let new_balance = amount + rq_amount transaction in
                 if new_balance < 0
                 then (Inl (HTTPException 400 Negative_balance), s)
                 else
                   let db_transaction =
                         \<lparr>tx_id = next_id (transactions s),
                          tx_user_id = user_id,
                          tx_currency = rq_currency transaction,
                          tx_amount = rq_amount transaction,
                          tx_status = PROCESSED,
                          tx_created = now\<rparr>
                   in (Inr (Returned_transaction db_transaction),
                       s\<lparr>user_balance :=
                            (user_balance s)((user_id, rq_currency transaction) \<mapsto> new_balance),
                         transactions := transactions s @ [db_transaction]\<rparr>)))"

section \<open>main.py: patch_rollback_transaction (Rollback)\<close>

definition patch_rollback_transaction ::
  "int \<Rightarrow> int \<Rightarrow> 'a::{minus,zero,ord} db \<Rightarrow> (exn + 'a Transaction) \<times> 'a db" where
  "patch_rollback_transaction user_id transaction_id s =
     (case users s user_id of
        None \<Rightarrow> (Inl (HTTPException 404 (User_does_not_exist user_id)), s)
      | Some user \<Rightarrow>
          if user_status user = BLOCKED
          then (Inl (HTTPException 400 (User_is_BLOCKED user_id)), s)
          else
            (case select_transaction (transactions s) transaction_id of
               None \<Rightarrow>
                 (Inl (TransactionNotExistsException 404
                         (Transaction_does_not_exist transaction_id)), s)
             | Some transaction \<Rightarrow>
                 if tx_user_id transaction \<noteq> user_id
                 then (Inl (TransactionDoesNotBelongToUserException 400
                              (Transaction_does_not_belong_to_user (tx_id transaction) user_id)), s)
                 else if tx_status transaction = ROLLBACKED
                 then (Inl (TransactionAlreadyRollbackedException 400
                              (Transaction_is_already_rollbacked (tx_id transaction))), s)
                 else
                   (case user_balance s (user_id, tx_currency transaction) of
                      None \<Rightarrow> (Inl (HTTPException 404 Balance_not_found), s)
                    | Some amount \<Rightarrow>
                        let new_balance = amount - tx_amount transaction in
                        if new_balance < 0
                        then (Inl (HTTPException 400 Balance_can_not_be_negative), s)
                        else
                          (Inr (transaction\<lparr>tx_status := ROLLBACKED\<rparr>),
                           s\<lparr>user_balance :=
                                (user_balance s)((user_id, tx_currency transaction) \<mapsto> new_balance),
                             transactions :=
                               set_rollbacked (tx_id transaction) (transactions s)\<rparr>))))"

section \<open>python_models.py: RequestTransactionModel, and the request as the endpoint sees it\<close>

datatype validation_error = ValidationError

text \<open>
  \<^verbatim>\<open>amount: float = Field(ge=1)\<close>: the model is built only when \<open>amount \<ge> 1\<close>.
\<close>

definition validate_RequestTransactionModel ::
  "CurrencyEnum \<Rightarrow> 'a::{one,ord} \<Rightarrow> validation_error + 'a RequestTransactionModel" where
  "validate_RequestTransactionModel currency amount =
     (if amount \<ge> 1 then Inr \<lparr>rq_currency = currency, rq_amount = amount\<rparr>
      else Inl ValidationError)"

datatype 'a response =
    Rejected validation_error
  | Handled "exn + 'a returned"

text \<open>
  \<^verbatim>\<open>POST /{user_id}/transactions\<close>: the body is validated into a
  \<^verbatim>\<open>RequestTransactionModel\<close> before the handler \<^verbatim>\<open>post_transaction\<close> is called.
\<close>

definition post_transaction_request ::
  "int \<Rightarrow> int \<Rightarrow> CurrencyEnum \<Rightarrow> 'a::{plus,zero,one,ord} \<Rightarrow> 'a db \<Rightarrow> 'a response \<times> 'a db" where
  "post_transaction_request now user_id currency amount s =
     (case validate_RequestTransactionModel currency amount of
        Inl e \<Rightarrow> (Rejected e, s)
      | Inr transaction \<Rightarrow>
          (case post_transaction now user_id transaction s of (r, s') \<Rightarrow> (Handled r, s')))"

section \<open>Sequences of Apply and Rollback calls\<close>

datatype 'a operation =
    Apply int int "'a RequestTransactionModel"
  | Rollback int int

fun step :: "'a::{plus,minus,zero,ord} operation \<Rightarrow> 'a db \<Rightarrow> 'a db" where
  "step (Apply now user_id transaction) s = snd (post_transaction now user_id transaction s)"
| "step (Rollback user_id transaction_id) s = snd (patch_rollback_transaction user_id transaction_id s)"

definition run :: "'a::{plus,minus,zero,ord} operation list \<Rightarrow> 'a db \<Rightarrow> 'a db" where
  "run ops s = fold step ops s"

text \<open>The invariant of the balance table: no stored amount is below zero.\<close>

definition balances_non_negative :: "'a::{zero,ord} db \<Rightarrow> bool" where
  "balances_non_negative s = (\<forall>k amount. user_balance s k = Some amount \<longrightarrow> 0 \<le> amount)"

text \<open>
  What may happen to a transaction row between two states of the store: nothing, or the
  change of its status from \<open>PROCESSED\<close> to \<open>ROLLBACKED\<close> with every other column kept.
\<close>

definition status_step :: "'a Transaction \<Rightarrow> 'a Transaction \<Rightarrow> bool" where
  "status_step t t' = (t' = t \<or> (tx_status t = PROCESSED \<and> t' = t\<lparr>tx_status := ROLLBACKED\<rparr>))"

section \<open>tasks.py: the weekly analysis\<close>

text \<open>
  A \<^verbatim>\<open>datetime.date\<close> is its proleptic Gregorian ordinal, between 1 (\<^verbatim>\<open>date.min\<close>) and
  3652059 (\<^verbatim>\<open>date.max\<close>); a \<^verbatim>\<open>timedelta\<close> is a number of days of magnitude at most
  999999999. Leaving either range raises \<^verbatim>\<open>OverflowError\<close>.
\<close>

datatype py_error = OverflowError

definition timedelta_weeks :: "int \<Rightarrow> py_error + int" where
  "timedelta_weeks weeks =
     (if \<bar>7 * weeks\<bar> \<le> 999999999 then Inr (7 * weeks) else Inl OverflowError)"

definition date_sub :: "int \<Rightarrow> int \<Rightarrow> py_error + int" where
  "date_sub d days =
     (if 1 \<le> d - days \<and> d - days \<le> 3652059 then Inr (d - days) else Inl OverflowError)"

record 'a WeeklyStat =
  start_date :: int
  end_date :: int
  registered_users_count :: int
  registered_and_deposit_users_count :: int
  registered_and_not_rollbacked_deposit_users_count :: int
  not_rollbacked_deposit_amount :: 'a
  not_rollbacked_withdraw_amount :: 'a
  transactions_count :: int
  not_rollbacked_transactions_count :: int

text \<open>
  The seven functions imported from module \<^verbatim>\<open>queries\<close>, which is not among the sources:
  they are a parameter of the analysis. Each takes \<open>dt_gt\<close> and \<open>dt_lt\<close> (the session is
  read only and is part of the function).
\<close>

record 'a queries =
  get_registered_users_count :: "int \<Rightarrow> int \<Rightarrow> int"
  get_registered_and_deposit_users_count :: "int \<Rightarrow> int \<Rightarrow> int"
  get_registered_and_not_rollbacked_deposit_users_count :: "int \<Rightarrow> int \<Rightarrow> int"
  get_not_rollbacked_deposit_amount :: "int \<Rightarrow> int \<Rightarrow> 'a"
  get_not_rollbacked_withdraw_amount :: "int \<Rightarrow> int \<Rightarrow> 'a"
  get_transactions_count :: "int \<Rightarrow> int \<Rightarrow> int"
  get_not_rollbacked_transactions_count :: "int \<Rightarrow> int \<Rightarrow> int"

text \<open>The condition \<^verbatim>\<open>any([... > 0, ...])\<close> of the loop body, for the range \<open>(dt_gt, dt_lt)\<close>.\<close>

definition any_positive :: "'a::{zero,ord} queries \<Rightarrow> int \<Rightarrow> int \<Rightarrow> bool" where
  "any_positive q dt_gt dt_lt =
     list_ex (\<lambda>b. b)
       [get_registered_users_count q dt_gt dt_lt > 0,
        get_registered_and_deposit_users_count q dt_gt dt_lt > 0,
        get_registered_and_not_rollbacked_deposit_users_count q dt_gt dt_lt > 0,
        get_not_rollbacked_deposit_amount q dt_gt dt_lt > 0,
        get_not_rollbacked_withdraw_amount q dt_gt dt_lt > 0,
        get_transactions_count q dt_gt dt_lt > 0,
        get_not_rollbacked_transactions_count q dt_gt dt_lt > 0]"

text \<open>The dictionary appended to \<^verbatim>\<open>results\<close>.\<close>

definition entry :: "'a queries \<Rightarrow> int \<Rightarrow> int \<Rightarrow> 'a WeeklyStat" where
  "entry q dt_gt dt_lt =
     \<lparr>start_date = dt_gt,
      end_date = dt_lt,
      registered_users_count = get_registered_users_count q dt_gt dt_lt,
      registered_and_deposit_users_count = get_registered_and_deposit_users_count q dt_gt dt_lt,
      registered_and_not_rollbacked_deposit_users_count =
        get_registered_and_not_rollbacked_deposit_users_count q dt_gt dt_lt,
      not_rollbacked_deposit_amount = get_not_rollbacked_deposit_amount q dt_gt dt_lt,
      not_rollbacked_withdraw_amount = get_not_rollbacked_withdraw_amount q dt_gt dt_lt,
      transactions_count = get_transactions_count q dt_gt dt_lt,
      not_rollbacked_transactions_count = get_not_rollbacked_transactions_count q dt_gt dt_lt\<rparr>"

text \<open>
  The loop \<^verbatim>\<open>for _ in range(weeks)\<close>, with the number of iterations left, the two
  bounds and the list built so far. Both bounds move back by \<^verbatim>\<open>timedelta(weeks=1)\<close> at
  the end of every iteration, the last one included.
\<close>

fun weeks_loop ::
  "'a::{zero,ord} queries \<Rightarrow> nat \<Rightarrow> int \<Rightarrow> int \<Rightarrow> 'a WeeklyStat list
     \<Rightarrow> py_error + 'a WeeklyStat list" where
  "weeks_loop q 0 dt_gt dt_lt results = Inr results"
| "weeks_loop q (Suc n) dt_gt dt_lt results =
     (let results' =
            (if any_positive q dt_gt dt_lt then results @ [entry q dt_gt dt_lt] else results)
      in case date_sub dt_gt 7 of
           Inl e \<Rightarrow> Inl e
         | Inr dt_gt' \<Rightarrow>
             (case date_sub dt_lt 7 of
                Inl e \<Rightarrow> Inl e
              | Inr dt_lt' \<Rightarrow> weeks_loop q n dt_gt' dt_lt' results'))"

text \<open>\<^verbatim>\<open>tasks.get_transaction_analysis\<close>; \<open>today\<close> is \<^verbatim>\<open>datetime.now().date()\<close>.\<close>

definition get_transaction_analysis ::
  "'a::{zero,ord} queries \<Rightarrow> int \<Rightarrow> int \<Rightarrow> py_error + 'a WeeklyStat list" where
  "get_transaction_analysis q today weeks =
     (let dt_lt = today in
      case timedelta_weeks weeks of
        Inl e \<Rightarrow> Inl e
      | Inr days \<Rightarrow>
          (case date_sub today days of
             Inl e \<Rightarrow> Inl e
           | Inr dt_gt \<Rightarrow> weeks_loop q (nat weeks) dt_gt dt_lt []))"

text \<open>
  The Celery task \<^verbatim>\<open>generate_transaction_analysis_task(weeks=52)\<close>. Its argument is
  optional: \<open>None\<close> is a call without it.
\<close>

definition generate_transaction_analysis_task ::
  "'a::{zero,ord} queries \<Rightarrow> int \<Rightarrow> int option \<Rightarrow> py_error + 'a WeeklyStat list" where
  "generate_transaction_analysis_task q today weeks_arg =
     get_transaction_analysis q today (case weeks_arg of None \<Rightarrow> 52 | Some weeks \<Rightarrow> weeks)"

text \<open>
  \<^verbatim>\<open>main.get_transaction_analysis(weeks: int = 52)\<close>, the handler of
  \<^verbatim>\<open>GET /transactions/analysis\<close>. The result is the argument with which the task is
  queued: the handler calls \<^verbatim>\<open>generate_transaction_analysis_task.delay()\<close>.
\<close>

definition main_get_transaction_analysis :: "int option \<Rightarrow> int option" where
  "main_get_transaction_analysis weeks_param =
     (let weeks = (case weeks_param of None \<Rightarrow> (52::int) | Some w \<Rightarrow> w) in None)"

text \<open>The buckets the loop visits, most recent first, as pairs \<open>(dt_gt, dt_lt)\<close>.\<close>

definition scanned :: "int \<Rightarrow> int \<Rightarrow> (int \<times> int) list" where
  "scanned today weeks =
     map (\<lambda>i. (today - 7 * weeks - 7 * int i, today - 7 * int i)) [0..<nat weeks]"

section \<open>Python floats\<close>

text \<open>
  The amounts of \<^verbatim>\<open>RequestTransactionModel\<close> are Python \<^verbatim>\<open>float\<close>s, that is IEEE-754
  binary64 numbers, and \<^verbatim>\<open>post_transaction\<close> adds in that arithmetic
  (\<^verbatim>\<open>float(user_balance.amount) + transaction.amount\<close>). The type \<open>float64\<close> holds the
  finite doubles whose value is an integer, by that value. Every integer of magnitude
  up to \<open>2 ^ 53 = 9007199254740992\<close> is a double; above, the doubles are
  \<open>ulp\<close> apart, where \<open>ulp\<close> doubles with every further binary digit. A sum or a
  difference is the exact result rounded to the nearest double, a tie going to the even
  significand. Infinities, NaN and fractions are not part of this type.
\<close>

datatype float64 = Float64 int

fun value_of :: "float64 \<Rightarrow> int" where
  "value_of (Float64 n) = n"

fun ulp :: "nat \<Rightarrow> nat" where
  "ulp m = (if m < 9007199254740992 then 1 else 2 * ulp (m div 2))"

declare ulp.simps [simp del]

definition round_to_double :: "int \<Rightarrow> int" where
  "round_to_double n =
     (let u = int (ulp (nat \<bar>n\<bar>)); q = n div u; r = n mod u
      in if 2 * r < u then q * u
         else if u < 2 * r then (q + 1) * u
         else if even q then q * u
         else (q + 1) * u)"

instantiation float64 :: "{plus,minus,zero,ord}"
begin

definition plus_float64_def:
  "a + b = Float64 (round_to_double (value_of a + value_of b))"

definition minus_float64_def:
  "a - b = Float64 (round_to_double (value_of a - value_of b))"

definition zero_float64_def:
  "0 = Float64 0"

definition less_float64_def:
  "a < b \<longleftrightarrow> value_of a < value_of b"

definition less_eq_float64_def:
  "a \<le> b \<longleftrightarrow> value_of a \<le> value_of b"

instance ..

end

section \<open>Example stores\<close>

text \<open>
  Modelled from the spec: the query \<^verbatim>\<open>get_registered_users_count\<close> of the missing
  module \<^verbatim>\<open>queries\<close> (users registered in the range from \<open>start\<close> to \<open>end\<close>), over a
  store that holds the registration days of its users and no transaction, so that the
  other six metrics are zero.
\<close>

definition registrations_only :: "int list \<Rightarrow> int queries" where
  "registrations_only days =
     \<lparr>get_registered_users_count =
        (\<lambda>dt_gt dt_lt. int (length (filter (\<lambda>d. dt_gt \<le> d \<and> d < dt_lt) days))),
      get_registered_and_deposit_users_count = (\<lambda>dt_gt dt_lt. 0),
      get_registered_and_not_rollbacked_deposit_users_count = (\<lambda>dt_gt dt_lt. 0),
      get_not_rollbacked_deposit_amount = (\<lambda>dt_gt dt_lt. 0),
      get_not_rollbacked_withdraw_amount = (\<lambda>dt_gt dt_lt. 0),
      get_transactions_count = (\<lambda>dt_gt dt_lt. 0),
      get_not_rollbacked_transactions_count = (\<lambda>dt_gt dt_lt. 0)\<rparr>"

text \<open>
  A store with one user, number 1, of the given status, whose only balance is the given
  amount of USD, and with the given transaction rows.
\<close>

definition example_store :: "UserStatusEnum \<Rightarrow> int \<Rightarrow> int Transaction list \<Rightarrow> int db" where
  "example_store st amount ts =
     \<lparr>users = [1 \<mapsto> \<lparr>user_email = ''a@example.org'', user_status = st, user_created = 0\<rparr>],
      user_balance = [(1, USD) \<mapsto> amount],
      transactions = ts\<rparr>"

text \<open>Transaction 1: a deposit of 100 USD by user 1, in the given status.\<close>

definition deposit_100 :: "TransactionStatusEnum \<Rightarrow> int Transaction" where
  "deposit_100 st =
     \<lparr>tx_id = 1, tx_user_id = 1, tx_currency = USD, tx_amount = 100,
      tx_status = st, tx_created = 5\<rparr>"




section \<open>Facts about the store operations\<close>

lemma fold_max_ge: "a \<le> fold max xs (a::int)"
  by (induction xs arbitrary: a) (auto intro: order_trans [OF max.cobounded2])

lemma fold_max_mem: "x \<in> set xs \<Longrightarrow> x \<le> fold max xs (a::int)"
proof (induction xs arbitrary: a)
  case Nil
  then show ?case by simp
next
  case (Cons y ys)
  show ?case
  proof (cases "x = y")
    case True
    have "y \<le> max y a" by simp
    also have "\<dots> \<le> fold max ys (max y a)" by (rule fold_max_ge)
    finally show ?thesis using True by simp
  next
    case False
    with Cons.prems have "x \<in> set ys" by simp
    then show ?thesis using Cons.IH by simp
  qed
qed

lemma next_id_fresh: "t \<in> set ts \<Longrightarrow> tx_id t < next_id ts"
proof -
  assume "t \<in> set ts"
  then have "tx_id t \<in> set (map tx_id ts)" by simp
  then have "tx_id t \<le> fold max (map tx_id ts) 0" by (rule fold_max_mem)
  then show ?thesis by (simp add: next_id_def)
qed

lemma next_id_not_in: "next_id ts \<notin> tx_id ` set ts"
  using next_id_fresh by fastforce

lemma post_transaction_cases:
  "post_transaction now user_id transaction s = (r, s') \<Longrightarrow>
     (s' = s \<and> (\<forall>t. r \<noteq> Inr (Returned_transaction t))) \<or>
     (\<exists>user amount.
        users s user_id = Some user \<and> user_status user = ACTIVE \<and>
        user_balance s (user_id, rq_currency transaction) = Some amount \<and>
        \<not> amount + rq_amount transaction < 0 \<and>
        r = Inr (Returned_transaction
                   \<lparr>tx_id = next_id (transactions s), tx_user_id = user_id,
                    tx_currency = rq_currency transaction, tx_amount = rq_amount transaction,
                    tx_status = PROCESSED, tx_created = now\<rparr>) \<and>
        s' = s\<lparr>user_balance :=
                  (user_balance s)((user_id, rq_currency transaction) \<mapsto>
                     amount + rq_amount transaction),
                transactions := transactions s @
                  [\<lparr>tx_id = next_id (transactions s), tx_user_id = user_id,
                    tx_currency = rq_currency transaction, tx_amount = rq_amount transaction,
                    tx_status = PROCESSED, tx_created = now\<rparr>]\<rparr>)"
  by (auto simp: post_transaction_def Let_def split: option.splits if_splits)

lemma patch_rollback_transaction_cases:
  "patch_rollback_transaction user_id transaction_id s = (r, s') \<Longrightarrow>
     (s' = s \<and> (\<exists>e. r = Inl e)) \<or>
     (\<exists>user t amount.
        users s user_id = Some user \<and> user_status user \<noteq> BLOCKED \<and>
        select_transaction (transactions s) transaction_id = Some t \<and>
        tx_user_id t = user_id \<and> tx_status t = PROCESSED \<and>
        user_balance s (user_id, tx_currency t) = Some amount \<and>
        \<not> amount - tx_amount t < 0 \<and>
        r = Inr (t\<lparr>tx_status := ROLLBACKED\<rparr>) \<and>
        s' = s\<lparr>user_balance := (user_balance s)((user_id, tx_currency t) \<mapsto> amount - tx_amount t),
                transactions := set_rollbacked (tx_id t) (transactions s)\<rparr>)"
  by (auto simp: patch_rollback_transaction_def Let_def split: option.splits if_splits
      intro: TransactionStatusEnum.exhaust)

lemma patch_rollback_transaction_raise_unchanged:
  "patch_rollback_transaction user_id transaction_id s = (Inl e, s') \<Longrightarrow> s' = s"
  by (auto dest: patch_rollback_transaction_cases)

lemma select_transaction_id:
  "select_transaction ts transaction_id = Some t \<Longrightarrow> tx_id t = transaction_id \<and> t \<in> set ts"
  unfolding select_transaction_def by (induction ts) (auto split: if_splits)


lemma status_step_refl: "status_step t t"
  by (simp add: status_step_def)

lemma status_step_trans: "status_step a b \<Longrightarrow> status_step b c \<Longrightarrow> status_step a c"
  by (auto simp: status_step_def)

lemma set_rollbacked_status_step:
  "select_transaction ts transaction_id = Some t \<Longrightarrow> tx_status t = PROCESSED \<Longrightarrow>
     list_all2 status_step ts (set_rollbacked transaction_id ts)"
  unfolding select_transaction_def
  by (induction ts) (auto simp: status_step_def list_all2_same split: if_splits)

lemma set_rollbacked_select:
  "select_transaction ts transaction_id = Some t \<Longrightarrow>
     select_transaction (set_rollbacked transaction_id ts) transaction_id =
       Some (t\<lparr>tx_status := ROLLBACKED\<rparr>)"
  unfolding select_transaction_def
  by (induction ts) (auto split: if_splits)

lemma step_balances_non_negative:
  fixes s :: "'a::{plus,minus,zero,linorder} db"
  assumes "balances_non_negative s"
  shows "balances_non_negative (step op s)"
proof (cases op)
  case (Apply now user_id transaction)
  obtain r s' where eq: "post_transaction now user_id transaction s = (r, s')"
    by (cases "post_transaction now user_id transaction s")
  from post_transaction_cases [OF eq] assms have "balances_non_negative s'"
    by (auto simp: balances_non_negative_def not_less split: if_splits)
  with Apply eq show ?thesis by simp
next
  case (Rollback user_id transaction_id)
  obtain r s' where eq: "patch_rollback_transaction user_id transaction_id s = (r, s')"
    by (cases "patch_rollback_transaction user_id transaction_id s")
  from patch_rollback_transaction_cases [OF eq] assms have "balances_non_negative s'"
    by (auto simp: balances_non_negative_def not_less split: if_splits)
  with Rollback eq show ?thesis by simp
qed

lemma step_transactions:
  fixes s :: "'a::{plus,minus,zero,ord} db"
  shows "length (transactions s) \<le> length (transactions (step op s))
       \<and> list_all2 status_step (transactions s)
           (take (length (transactions s)) (transactions (step op s)))"
proof (cases op)
  case (Apply now user_id transaction)
  obtain r s' where eq: "post_transaction now user_id transaction s = (r, s')"
    by (cases "post_transaction now user_id transaction s")
  from post_transaction_cases [OF eq]
  have "length (transactions s) \<le> length (transactions s')
       \<and> list_all2 status_step (transactions s) (take (length (transactions s)) (transactions s'))"
    by (auto simp: list_all2_same status_step_refl)
  with Apply eq show ?thesis by simp
next
  case (Rollback user_id transaction_id)
  obtain r s' where eq: "patch_rollback_transaction user_id transaction_id s = (r, s')"
    by (cases "patch_rollback_transaction user_id transaction_id s")
  from patch_rollback_transaction_cases [OF eq]
  have "list_all2 status_step (transactions s) (transactions s')"
    by (auto simp: list_all2_same status_step_refl select_transaction_id
        intro: set_rollbacked_status_step)
  then have "length (transactions s) \<le> length (transactions s')
       \<and> list_all2 status_step (transactions s) (take (length (transactions s)) (transactions s'))"
    by (simp add: list_all2_lengthD)
  with Rollback eq show ?thesis by simp
qed

lemma run_transactions:
  fixes s :: "'a::{plus,minus,zero,ord} db"
  shows "length (transactions s) \<le> length (transactions (run ops s))
       \<and> list_all2 status_step (transactions s)
           (take (length (transactions s)) (transactions (run ops s)))"
proof (induction ops arbitrary: s)
  case Nil
  show ?case by (simp add: run_def list_all2_same status_step_refl)
next
  case (Cons op ops)
  let ?s1 = "step op s"
  let ?n = "length (transactions s)"
  have r: "run (op # ops) s = run ops ?s1" by (simp add: run_def)
  from step_transactions [of s op]
  have l1: "?n \<le> length (transactions ?s1)"
    and a1: "list_all2 status_step (transactions s) (take ?n (transactions ?s1))" by simp_all
  from Cons.IH [of ?s1]
  have l2: "length (transactions ?s1) \<le> length (transactions (run ops ?s1))"
    and a2: "list_all2 status_step (transactions ?s1)
               (take (length (transactions ?s1)) (transactions (run ops ?s1)))" by simp_all
  from a2 have "list_all2 status_step (take ?n (transactions ?s1))
                  (take ?n (take (length (transactions ?s1)) (transactions (run ops ?s1))))"
    by (rule list_all2_takeI)
  with l1 have a3: "list_all2 status_step (take ?n (transactions ?s1))
                      (take ?n (transactions (run ops ?s1)))"
    by (simp add: min_absorb2)
  have "list_all2 status_step (transactions s) (take ?n (transactions (run ops ?s1)))"
    using a1 a3 by (rule list_all2_trans [rotated]) (rule status_step_trans)
  with l1 l2 r show ?case by simp
qed

text \<open>The loop of the analysis: what it returns, and when it returns.\<close>

lemma weeks_loop_result:
  "weeks_loop q n dt_gt dt_lt acc = Inr results \<Longrightarrow>
     results = acc @ map (\<lambda>(g, l). entry q g l)
                 (filter (\<lambda>(g, l). any_positive q g l)
                    (map (\<lambda>i. (dt_gt - 7 * int i, dt_lt - 7 * int i)) [0..<n]))"
proof (induction n arbitrary: dt_gt dt_lt acc)
  case 0
  then show ?case by simp
next
  case (Suc n)
  from Suc.prems obtain g' l' where g': "date_sub dt_gt 7 = Inr g'" and l': "date_sub dt_lt 7 = Inr l'"
    and rec: "weeks_loop q n g' l'
                (if any_positive q dt_gt dt_lt then acc @ [entry q dt_gt dt_lt] else acc) = Inr results"
    by (auto simp: Let_def split: sum.splits)
  from g' have g: "g' = dt_gt - 7" by (auto simp: date_sub_def split: if_splits)
  from l' have l: "l' = dt_lt - 7" by (auto simp: date_sub_def split: if_splits)
  have shift: "map (\<lambda>i. (dt_gt - 7 * int i, dt_lt - 7 * int i)) [0..<Suc n] =
               (dt_gt, dt_lt) # map (\<lambda>i. (g' - 7 * int i, l' - 7 * int i)) [0..<n]"
    unfolding upt_conv_Cons [OF zero_less_Suc] map_Suc_upt [symmetric]
    by (simp add: g l algebra_simps)
  show ?case
    unfolding shift using Suc.IH [OF rec] by simp
qed

lemma weeks_loop_total:
  "1 \<le> dt_gt - 7 * int n \<Longrightarrow> dt_gt \<le> dt_lt \<Longrightarrow> dt_lt \<le> 3652059 \<Longrightarrow>
     \<exists>results. weeks_loop q n dt_gt dt_lt acc = Inr results"
proof (induction n arbitrary: dt_gt dt_lt acc)
  case 0
  then show ?case by simp
next
  case (Suc n)
  have g: "date_sub dt_gt 7 = Inr (dt_gt - 7)" using Suc.prems by (simp add: date_sub_def)
  have l: "date_sub dt_lt 7 = Inr (dt_lt - 7)" using Suc.prems by (simp add: date_sub_def)
  have "\<exists>results. weeks_loop q n (dt_gt - 7) (dt_lt - 7)
           (if any_positive q dt_gt dt_lt then acc @ [entry q dt_gt dt_lt] else acc) = Inr results"
    using Suc.prems by (intro Suc.IH) simp_all
  then show ?case by (simp add: g l Let_def)
qed




section \<open>The balance engine: Apply and Rollback\<close>

text \<open>
  C2: for every call of \<^verbatim>\<open>post_transaction\<close> for an existing \<open>ACTIVE\<close> user with an
  existing balance \<open>current_amount\<close> in the currency of the request: when
  \<open>current_amount + amount < 0\<close> the call raises the exception with detail "Negative
  balance" (the spec's NegativeBalanceError) and the store is unchanged; otherwise it
  returns a transaction row, the balance becomes \<open>current_amount + amount\<close>, and
  exactly one row is appended to the transactions, with status \<open>PROCESSED\<close>, the
  amount, user and currency of the request and an identifier no earlier row has. A sum
  equal to zero is on the successful side. Only \<open>+\<close>, \<open>0\<close> and a preorder on the
  amounts are used.
\<close>

theorem post_transaction_apply:
  fixes s :: "'a::{plus,zero,preorder} db"
  assumes "users s user_id = Some user"
    and "user_status user = ACTIVE"
    and "user_balance s (user_id, rq_currency transaction) = Some current_amount"
  shows "(current_amount + rq_amount transaction < 0 \<longrightarrow>
            post_transaction now user_id transaction s =
              (Inl (HTTPException 400 Negative_balance), s))
       \<and> (\<not> current_amount + rq_amount transaction < 0 \<longrightarrow>
            (\<exists>t. post_transaction now user_id transaction s =
                   (Inr (Returned_transaction t),
                    s\<lparr>user_balance :=
                         (user_balance s)((user_id, rq_currency transaction) \<mapsto>
                            current_amount + rq_amount transaction),
                      transactions := transactions s @ [t]\<rparr>)
               \<and> tx_status t = PROCESSED
               \<and> tx_amount t = rq_amount transaction
               \<and> tx_user_id t = user_id
               \<and> tx_currency t = rq_currency transaction
               \<and> tx_id t \<notin> tx_id ` set (transactions s)))
       \<and> (current_amount + rq_amount transaction = 0 \<longrightarrow>
            (\<exists>t s'. post_transaction now user_id transaction s =
                      (Inr (Returned_transaction t), s')
                  \<and> user_balance s' (user_id, rq_currency transaction) = Some 0))"
  using assms next_id_not_in [of "transactions s"]
  by (simp add: post_transaction_def Let_def)

theorem post_transaction_apply_witness:
  "users (example_store ACTIVE 50 []) 1 =
     Some \<lparr>user_email = ''a@example.org'', user_status = ACTIVE, user_created = 0\<rparr>
   \<and> user_balance (example_store ACTIVE 50 []) (1, USD) = Some 50
   \<and> post_transaction 9 1 \<lparr>rq_currency = USD, rq_amount = - 80\<rparr> (example_store ACTIVE 50 []) =
       (Inl (HTTPException 400 Negative_balance), example_store ACTIVE 50 [])
   \<and> (\<exists>t. post_transaction 9 1 \<lparr>rq_currency = USD, rq_amount = - 50\<rparr>
              (example_store ACTIVE 50 []) =
            (Inr (Returned_transaction t),
             (example_store ACTIVE 50 [])
               \<lparr>user_balance := (user_balance (example_store ACTIVE 50 []))((1, USD) \<mapsto> 0),
                transactions := [t]\<rparr>)
          \<and> tx_status t = PROCESSED \<and> tx_amount t = - 50)"
proof -
  let ?u = "\<lparr>user_email = ''a@example.org'', user_status = ACTIVE, user_created = 0\<rparr>"
  let ?s = "example_store ACTIVE 50 []"
  have h1: "users ?s 1 = Some ?u" by (simp add: example_store_def)
  have h2: "user_status ?u = ACTIVE" by simp
  have h3: "user_balance ?s (1, rq_currency \<lparr>rq_currency = USD, rq_amount = - 80::int\<rparr>) = Some 50"
    by (simp add: example_store_def)
  have h4: "user_balance ?s (1, rq_currency \<lparr>rq_currency = USD, rq_amount = - 50::int\<rparr>) = Some 50"
    by (simp add: example_store_def)
  show ?thesis
    using h1 post_transaction_apply [OF h1 h2 h3, of 9] post_transaction_apply [OF h1 h2 h4, of 9]
    by (auto simp: example_store_def)
qed

text \<open>
  C3: when no balance of the store is negative, none is negative after any sequence
  of Apply (\<^verbatim>\<open>post_transaction\<close>) and Rollback (\<^verbatim>\<open>patch_rollback_transaction\<close>)
  calls, whatever their arguments and whether they succeed or fail; a sequence of one
  call is the statement for a single Apply or Rollback. The calls run one after the
  other.
\<close>

theorem balances_stay_non_negative:
  fixes s :: "'a::{plus,minus,zero,linorder} db"
  shows "balances_non_negative s \<Longrightarrow> balances_non_negative (run ops s)"
  unfolding run_def
  by (induction ops arbitrary: s) (simp_all add: step_balances_non_negative)

theorem balances_stay_non_negative_witness:
  "balances_non_negative (example_store ACTIVE 50 [])
   \<and> balances_non_negative
        (run [Apply 9 1 \<lparr>rq_currency = USD, rq_amount = - 80\<rparr>,
              Apply 10 1 \<lparr>rq_currency = USD, rq_amount = 100\<rparr>,
              Rollback 1 1,
              Apply 11 1 \<lparr>rq_currency = USD, rq_amount = - 50\<rparr>]
           (example_store ACTIVE 50 []))"
proof -
  have h: "balances_non_negative (example_store ACTIVE 50 [])"
    by (simp add: balances_non_negative_def example_store_def)
  show ?thesis using h balances_stay_non_negative [OF h] by simp
qed




text \<open>
  C5: \<^verbatim>\<open>post_transaction\<close> for a user that does not exist. The handler does not
  raise: it returns the exception object as its value (\<^verbatim>\<open>return HTTPException(...)\<close>),
  where the claim asks for a signalled UserNotFoundError. The store is unchanged.
\<close>

theorem post_transaction_missing_user:
  "post_transaction 5 7 \<lparr>rq_currency = USD, rq_amount = 100\<rparr> (example_store ACTIVE 0 []) =
     (Inr (Returned_exception (HTTPException 404 (User_does_not_exist 7))),
      example_store ACTIVE 0 [])"
  by (simp add: post_transaction_def example_store_def)

text \<open>
  C6: a call of \<^verbatim>\<open>patch_rollback_transaction\<close> for a transaction and
  a balance with \<open>balance.amount - transaction.amount < 0\<close> always raises and leaves
  the store unchanged, so the balance amount and the status of the transaction stay as
  they were; when the user exists and is not \<open>BLOCKED\<close> and the transaction belongs
  to the user and is \<open>PROCESSED\<close>, the exception is the one with detail "Balance can
  not be negative" (the spec's NegativeBalanceError).
\<close>

theorem rollback_negative_rejected:
  fixes s :: "'a::{minus,zero,ord} db"
  assumes "select_transaction (transactions s) transaction_id = Some t"
    and "user_balance s (user_id, tx_currency t) = Some amount"
    and "amount - tx_amount t < 0"
  shows "(\<exists>e. patch_rollback_transaction user_id transaction_id s = (Inl e, s))
       \<and> (\<forall>user. users s user_id = Some user \<and> user_status user \<noteq> BLOCKED
                  \<and> tx_user_id t = user_id \<and> tx_status t = PROCESSED \<longrightarrow>
            patch_rollback_transaction user_id transaction_id s =
              (Inl (HTTPException 400 Balance_can_not_be_negative), s))"
  using assms
  by (auto simp: patch_rollback_transaction_def Let_def split: option.splits)

text \<open>
  The claim as stated fails for a blocked user: the check of the user comes first and
  its exception is the one raised.
\<close>

theorem rollback_negative_rejected_counterexample:
  "select_transaction (transactions (example_store BLOCKED 20 [deposit_100 PROCESSED])) 1 =
     Some (deposit_100 PROCESSED)
   \<and> user_balance (example_store BLOCKED 20 [deposit_100 PROCESSED])
        (1, tx_currency (deposit_100 PROCESSED)) = Some 20
   \<and> (20::int) - tx_amount (deposit_100 PROCESSED) < 0
   \<and> patch_rollback_transaction 1 1 (example_store BLOCKED 20 [deposit_100 PROCESSED]) =
       (Inl (HTTPException 400 (User_is_BLOCKED 1)),
        example_store BLOCKED 20 [deposit_100 PROCESSED])
   \<and> HTTPException 400 (User_is_BLOCKED 1) \<noteq> HTTPException 400 Balance_can_not_be_negative"
  by (simp add: patch_rollback_transaction_def example_store_def deposit_100_def
      select_transaction_def)

theorem rollback_negative_rejected_witness:
  "select_transaction (transactions (example_store ACTIVE 20 [deposit_100 PROCESSED])) 1 =
     Some (deposit_100 PROCESSED)
   \<and> user_balance (example_store ACTIVE 20 [deposit_100 PROCESSED])
        (1, tx_currency (deposit_100 PROCESSED)) = Some 20
   \<and> (20::int) - tx_amount (deposit_100 PROCESSED) < 0
   \<and> users (example_store ACTIVE 20 [deposit_100 PROCESSED]) 1 =
       Some \<lparr>user_email = ''a@example.org'', user_status = ACTIVE, user_created = 0\<rparr>
   \<and> tx_user_id (deposit_100 PROCESSED) = 1
   \<and> tx_status (deposit_100 PROCESSED) = PROCESSED
   \<and> patch_rollback_transaction 1 1 (example_store ACTIVE 20 [deposit_100 PROCESSED]) =
       (Inl (HTTPException 400 Balance_can_not_be_negative),
        example_store ACTIVE 20 [deposit_100 PROCESSED])"
proof -
  let ?s = "example_store ACTIVE 20 [deposit_100 PROCESSED]"
  have h1: "select_transaction (transactions ?s) 1 = Some (deposit_100 PROCESSED)"
    by (simp add: select_transaction_def example_store_def deposit_100_def)
  have h2: "user_balance ?s (1, tx_currency (deposit_100 PROCESSED)) = Some 20"
    by (simp add: example_store_def deposit_100_def)
  have h3: "(20::int) - tx_amount (deposit_100 PROCESSED) < 0"
    by (simp add: deposit_100_def)
  have h4: "users ?s 1 =
              Some \<lparr>user_email = ''a@example.org'', user_status = ACTIVE, user_created = 0\<rparr>
            \<and> tx_user_id (deposit_100 PROCESSED) = 1
            \<and> tx_status (deposit_100 PROCESSED) = PROCESSED"
    by (simp add: example_store_def deposit_100_def)
  show ?thesis using h1 h2 h3 h4 rollback_negative_rejected [OF h1 h2 h3] by simp
qed

text \<open>
  C7: between the store before and the store after any sequence of
  Apply and Rollback calls, every transaction row is either unchanged or has gone from
  \<open>PROCESSED\<close> to \<open>ROLLBACKED\<close> with its other columns kept; a Rollback of a
  transaction whose status is \<open>ROLLBACKED\<close> always raises and leaves the store
  unchanged, and the exception is \<^verbatim>\<open>TransactionAlreadyRollbackedException\<close> when the
  user exists, is not \<open>BLOCKED\<close> and owns the transaction; a Rollback repeated right
  after a successful one raises that exception, so rollback is not idempotent.
\<close>

theorem rollback_at_most_once:
  fixes s :: "'a::{plus,minus,zero,ord} db"
  shows "list_all2 status_step (transactions s)
           (take (length (transactions s)) (transactions (run ops s)))
       \<and> (\<forall>t. select_transaction (transactions s) transaction_id = Some t
                \<and> tx_status t = ROLLBACKED \<longrightarrow>
              (\<exists>e. patch_rollback_transaction user_id transaction_id s = (Inl e, s))
            \<and> (\<forall>user. users s user_id = Some user \<and> user_status user \<noteq> BLOCKED
                       \<and> tx_user_id t = user_id \<longrightarrow>
                 patch_rollback_transaction user_id transaction_id s =
                   (Inl (TransactionAlreadyRollbackedException 400
                           (Transaction_is_already_rollbacked transaction_id)), s)))
       \<and> (\<forall>t' s'. patch_rollback_transaction user_id transaction_id s = (Inr t', s') \<longrightarrow>
              patch_rollback_transaction user_id transaction_id s' =
                (Inl (TransactionAlreadyRollbackedException 400
                        (Transaction_is_already_rollbacked transaction_id)), s'))"
proof (intro conjI allI impI)
  show "list_all2 status_step (transactions s)
          (take (length (transactions s)) (transactions (run ops s)))"
    using run_transactions [of s ops] by simp
next
  fix t
  assume h: "select_transaction (transactions s) transaction_id = Some t
             \<and> tx_status t = ROLLBACKED"
  then have i: "tx_id t = transaction_id" using select_transaction_id by blast
  show "\<exists>e. patch_rollback_transaction user_id transaction_id s = (Inl e, s)"
    using h by (auto simp: patch_rollback_transaction_def split: option.splits)
  fix user
  assume "users s user_id = Some user \<and> user_status user \<noteq> BLOCKED \<and> tx_user_id t = user_id"
  then show "patch_rollback_transaction user_id transaction_id s =
               (Inl (TransactionAlreadyRollbackedException 400
                       (Transaction_is_already_rollbacked transaction_id)), s)"
    using h i by (simp add: patch_rollback_transaction_def)
next
  fix t' s'
  assume a: "patch_rollback_transaction user_id transaction_id s = (Inr t', s')"
  from patch_rollback_transaction_cases [OF a]
  obtain user t amount where u: "users s user_id = Some user" "user_status user \<noteq> BLOCKED"
    and sel: "select_transaction (transactions s) transaction_id = Some t"
    and own: "tx_user_id t = user_id"
    and s': "s' = s\<lparr>user_balance :=
                      (user_balance s)((user_id, tx_currency t) \<mapsto> amount - tx_amount t),
                    transactions := set_rollbacked (tx_id t) (transactions s)\<rparr>"
    by auto
  from sel have i: "tx_id t = transaction_id" using select_transaction_id by blast
  have "select_transaction (transactions s') transaction_id = Some (t\<lparr>tx_status := ROLLBACKED\<rparr>)"
    using s' i set_rollbacked_select [OF sel] by simp
  moreover have "users s' user_id = Some user" using s' u by simp
  ultimately show "patch_rollback_transaction user_id transaction_id s' =
               (Inl (TransactionAlreadyRollbackedException 400
                       (Transaction_is_already_rollbacked transaction_id)), s')"
    using u own i by (simp add: patch_rollback_transaction_def)
qed

text \<open>
  The claim as stated fails for a blocked user, whose Rollback of a \<open>ROLLBACKED\<close>
  transaction raises the exception of the user check.
\<close>

theorem rollback_at_most_once_counterexample:
  "select_transaction (transactions (example_store BLOCKED 100 [deposit_100 ROLLBACKED])) 1 =
     Some (deposit_100 ROLLBACKED)
   \<and> tx_status (deposit_100 ROLLBACKED) = ROLLBACKED
   \<and> patch_rollback_transaction 1 1 (example_store BLOCKED 100 [deposit_100 ROLLBACKED]) =
       (Inl (HTTPException 400 (User_is_BLOCKED 1)),
        example_store BLOCKED 100 [deposit_100 ROLLBACKED])
   \<and> HTTPException 400 (User_is_BLOCKED 1) \<noteq>
       TransactionAlreadyRollbackedException 400 (Transaction_is_already_rollbacked 1)"
  by (simp add: patch_rollback_transaction_def example_store_def deposit_100_def
      select_transaction_def)

theorem rollback_at_most_once_witness:
  "patch_rollback_transaction 1 1 (example_store ACTIVE 100 [deposit_100 PROCESSED]) =
     (Inr (deposit_100 ROLLBACKED), example_store ACTIVE 0 [deposit_100 ROLLBACKED])
   \<and> select_transaction (transactions (example_store ACTIVE 0 [deposit_100 ROLLBACKED])) 1 =
       Some (deposit_100 ROLLBACKED)
   \<and> tx_status (deposit_100 ROLLBACKED) = ROLLBACKED
   \<and> users (example_store ACTIVE 0 [deposit_100 ROLLBACKED]) 1 =
       Some \<lparr>user_email = ''a@example.org'', user_status = ACTIVE, user_created = 0\<rparr>
   \<and> tx_user_id (deposit_100 ROLLBACKED) = 1
   \<and> patch_rollback_transaction 1 1 (example_store ACTIVE 0 [deposit_100 ROLLBACKED]) =
       (Inl (TransactionAlreadyRollbackedException 400 (Transaction_is_already_rollbacked 1)),
        example_store ACTIVE 0 [deposit_100 ROLLBACKED])
   \<and> list_all2 status_step [deposit_100 PROCESSED]
        (take 1 (transactions
           (run [Rollback 1 1, Rollback 1 1]
              (example_store ACTIVE 100 [deposit_100 PROCESSED]))))"
proof -
  let ?s = "example_store ACTIVE 100 [deposit_100 PROCESSED]"
  let ?s' = "example_store ACTIVE 0 [deposit_100 ROLLBACKED]"
  have h1: "patch_rollback_transaction 1 1 ?s = (Inr (deposit_100 ROLLBACKED), ?s')"
    by (simp add: patch_rollback_transaction_def example_store_def deposit_100_def
        select_transaction_def)
  have h2: "select_transaction (transactions ?s') 1 = Some (deposit_100 ROLLBACKED)
            \<and> tx_status (deposit_100 ROLLBACKED) = ROLLBACKED
            \<and> users ?s' 1 =
                Some \<lparr>user_email = ''a@example.org'', user_status = ACTIVE, user_created = 0\<rparr>
            \<and> tx_user_id (deposit_100 ROLLBACKED) = 1"
    by (simp add: example_store_def deposit_100_def select_transaction_def)
  have t: "transactions ?s = [deposit_100 PROCESSED]" by (simp add: example_store_def)
  from rollback_at_most_once [of ?s "[Rollback 1 1, Rollback 1 1]" 1 1]
  have c1: "list_all2 status_step (transactions ?s)
              (take (length (transactions ?s))
                 (transactions (run [Rollback 1 1, Rollback 1 1] ?s)))"
    by (rule conjunct1)
  have h3: "user_status \<lparr>user_email = ''a@example.org'', user_status = ACTIVE,
              user_created = 0\<rparr> \<noteq> BLOCKED"
    by simp
  from rollback_at_most_once [of ?s' "[]" 1 1] h2 h3
  have c2: "patch_rollback_transaction 1 1 ?s' =
              (Inl (TransactionAlreadyRollbackedException 400
                      (Transaction_is_already_rollbacked 1)), ?s')"
    by blast
  from c1 have c3: "list_all2 status_step [deposit_100 PROCESSED]
        (take 1 (transactions (run [Rollback 1 1, Rollback 1 1] ?s)))"
    by (simp only: t list.size One_nat_def add_0)
  from h1 h2 c2 c3 show ?thesis by (intro conjI) blast+
qed

section \<open>The public transaction endpoint\<close>

text \<open>
  C10: a request to \<^verbatim>\<open>POST /{user_id}/transactions\<close> whose amount is not at least 1
  is rejected by the request model before \<^verbatim>\<open>post_transaction\<close> runs and leaves the
  store unchanged; a transaction row returned by the endpoint, and every row the store
  holds after the request that it did not hold before, has an amount of at least 1, so
  none is negative.
\<close>

theorem public_amount_at_least_one:
  fixes s :: "'a::{plus,zero_less_one} db"
  assumes "post_transaction_request now user_id currency amount s = (r, s')"
  shows "(\<not> 1 \<le> amount \<longrightarrow> r = Rejected ValidationError \<and> s' = s)
       \<and> (\<forall>t. r = Handled (Inr (Returned_transaction t)) \<longrightarrow>
              1 \<le> tx_amount t \<and> \<not> tx_amount t < 0)
       \<and> (\<forall>t \<in> set (transactions s'). t \<notin> set (transactions s) \<longrightarrow>
              1 \<le> tx_amount t \<and> \<not> tx_amount t < 0)"
proof (cases "1 \<le> amount")
  case False
  with assms show ?thesis
    by (auto simp: post_transaction_request_def validate_RequestTransactionModel_def)
next
  case True
  have "0 < amount" using True zero_less_one by (rule less_le_trans [rotated])
  then have nn: "\<not> amount < 0" by (simp add: less_asym)
  obtain r0 where eq: "post_transaction now user_id \<lparr>rq_currency = currency, rq_amount = amount\<rparr> s = (r0, s')"
    and r: "r = Handled r0"
    using assms True
    by (auto simp: post_transaction_request_def validate_RequestTransactionModel_def
        split: prod.splits)
  from post_transaction_cases [OF eq] True nn r show ?thesis
    by auto
qed

theorem public_amount_at_least_one_witness:
  "post_transaction_request 5 1 USD 100 (example_store ACTIVE 0 []) =
     (Handled (Inr (Returned_transaction (deposit_100 PROCESSED))),
      example_store ACTIVE 100 [deposit_100 PROCESSED])
   \<and> deposit_100 PROCESSED \<in> set (transactions (example_store ACTIVE 100 [deposit_100 PROCESSED]))
   \<and> deposit_100 PROCESSED \<notin> set (transactions (example_store ACTIVE 0 []))
   \<and> (1::int) \<le> tx_amount (deposit_100 PROCESSED)
   \<and> post_transaction_request 5 1 USD (- 80) (example_store ACTIVE 100 []) =
       (Rejected ValidationError, example_store ACTIVE 100 [])"
proof -
  let ?s = "example_store ACTIVE 0 []"
  let ?s' = "example_store ACTIVE 100 [deposit_100 PROCESSED]"
  have h1: "post_transaction_request 5 1 USD 100 ?s =
              (Handled (Inr (Returned_transaction (deposit_100 PROCESSED))), ?s')"
    by (simp add: post_transaction_request_def validate_RequestTransactionModel_def
        post_transaction_def example_store_def deposit_100_def next_id_def Let_def)
  have h2: "deposit_100 PROCESSED \<in> set (transactions ?s')
            \<and> deposit_100 PROCESSED \<notin> set (transactions ?s)"
    by (simp add: example_store_def)
  from public_amount_at_least_one [OF h1] h2
  have c1: "(1::int) \<le> tx_amount (deposit_100 PROCESSED)" by blast
  obtain r s' where h3: "post_transaction_request 5 1 USD (- 80) (example_store ACTIVE 100 []) = (r, s')"
    by (cases "post_transaction_request 5 1 USD (- 80::int) (example_store ACTIVE 100 [])")
  have h4: "\<not> (1::int) \<le> - 80" by simp
  from public_amount_at_least_one [OF h3] h4
  have "r = Rejected ValidationError \<and> s' = example_store ACTIVE 100 []" by blast
  with h3 have c2: "post_transaction_request 5 1 USD (- 80) (example_store ACTIVE 100 []) =
       (Rejected ValidationError, example_store ACTIVE 100 [])" by simp
  from h1 h2 c1 c2 show ?thesis by blast
qed

section \<open>The weekly analysis\<close>

text \<open>
  C1: \<^verbatim>\<open>get_transaction_analysis\<close> with \<open>weeks = 3\<close> on day 739000 over a store whose
  only activity is one registration on day 738990, in the middle one of the three weeks
  that end on that day. The first range runs from \<^verbatim>\<open>today - timedelta(weeks=weeks)\<close>
  to \<open>today\<close>, so every range is 21 days long and consecutive ranges overlap in 14
  days: two entries are returned, both counting the registration, where the claim asks
  for adjacent ranges of 7 days and one entry.
\<close>

theorem three_weeks_middle_activity:
  "get_transaction_analysis (registrations_only [738990]) 739000 3 =
     Inr [\<lparr>start_date = 738979, end_date = 739000, registered_users_count = 1,
           registered_and_deposit_users_count = 0,
           registered_and_not_rollbacked_deposit_users_count = 0,
           not_rollbacked_deposit_amount = 0, not_rollbacked_withdraw_amount = 0,
           transactions_count = 0, not_rollbacked_transactions_count = 0\<rparr>,
          \<lparr>start_date = 738972, end_date = 738993, registered_users_count = 1,
           registered_and_deposit_users_count = 0,
           registered_and_not_rollbacked_deposit_users_count = 0,
           not_rollbacked_deposit_amount = 0, not_rollbacked_withdraw_amount = 0,
           transactions_count = 0, not_rollbacked_transactions_count = 0\<rparr>]"
  by (simp add: get_transaction_analysis_def timedelta_weeks_def date_sub_def
      registrations_only_def any_positive_def entry_def numeral_3_eq_3)

text \<open>
  C9: when \<^verbatim>\<open>get_transaction_analysis\<close> returns, its result is the list of the
  entries of the scanned ranges, in the order of the scan, for which the condition of
  the loop holds; so the entry of a scanned range is in the result exactly when one of
  the seven metrics of that range is above zero. It returns for every \<open>weeks \<ge> 0\<close> and
  every day \<open>today\<close> from which \<open>14 * weeks\<close> days can be subtracted.
\<close>

theorem emitted_iff_positive:
  fixes q :: "'a::{zero,ord} queries"
  shows "(0 \<le> weeks \<and> 1 \<le> today - 14 * weeks \<and> today \<le> 3652059 \<longrightarrow>
            (\<exists>results. get_transaction_analysis q today weeks = Inr results))
       \<and> (\<forall>results. get_transaction_analysis q today weeks = Inr results \<longrightarrow>
            results = map (\<lambda>(dt_gt, dt_lt). entry q dt_gt dt_lt)
                        (filter (\<lambda>(dt_gt, dt_lt). any_positive q dt_gt dt_lt)
                           (scanned today weeks))
          \<and> (\<forall>(dt_gt, dt_lt) \<in> set (scanned today weeks).
                entry q dt_gt dt_lt \<in> set results \<longleftrightarrow>
                  (get_registered_users_count q dt_gt dt_lt > 0
                   \<or> get_registered_and_deposit_users_count q dt_gt dt_lt > 0
                   \<or> get_registered_and_not_rollbacked_deposit_users_count q dt_gt dt_lt > 0
                   \<or> get_not_rollbacked_deposit_amount q dt_gt dt_lt > 0
                   \<or> get_not_rollbacked_withdraw_amount q dt_gt dt_lt > 0
                   \<or> get_transactions_count q dt_gt dt_lt > 0
                   \<or> get_not_rollbacked_transactions_count q dt_gt dt_lt > 0)))"
proof (intro conjI allI impI)
  assume a: "0 \<le> weeks \<and> 1 \<le> today - 14 * weeks \<and> today \<le> 3652059"
  then have t: "timedelta_weeks weeks = Inr (7 * weeks)"
    by (simp add: timedelta_weeks_def)
  from a have d: "date_sub today (7 * weeks) = Inr (today - 7 * weeks)"
    by (simp add: date_sub_def)
  have "\<exists>results. weeks_loop q (nat weeks) (today - 7 * weeks) today [] = Inr results"
    using a by (intro weeks_loop_total) simp_all
  then show "\<exists>results. get_transaction_analysis q today weeks = Inr results"
    by (simp add: get_transaction_analysis_def t d)
next
  fix results
  assume r: "get_transaction_analysis q today weeks = Inr results"
  then obtain days dt_gt where "timedelta_weeks weeks = Inr days" "date_sub today days = Inr dt_gt"
    and loop: "weeks_loop q (nat weeks) dt_gt today [] = Inr results"
    by (auto simp: get_transaction_analysis_def split: sum.splits)
  then have g: "dt_gt = today - 7 * weeks"
    by (auto simp: timedelta_weeks_def date_sub_def split: if_splits)
  show eq: "results = map (\<lambda>(dt_gt, dt_lt). entry q dt_gt dt_lt)
                        (filter (\<lambda>(dt_gt, dt_lt). any_positive q dt_gt dt_lt)
                           (scanned today weeks))"
    using weeks_loop_result [OF loop] by (simp add: g scanned_def)
  have inj: "entry q g l = entry q g' l' \<longleftrightarrow> g = g' \<and> l = l'" for g l g' l'
    by (auto simp: entry_def)
  show "\<forall>(dt_gt, dt_lt) \<in> set (scanned today weeks).
                entry q dt_gt dt_lt \<in> set results \<longleftrightarrow>
                  (get_registered_users_count q dt_gt dt_lt > 0
                   \<or> get_registered_and_deposit_users_count q dt_gt dt_lt > 0
                   \<or> get_registered_and_not_rollbacked_deposit_users_count q dt_gt dt_lt > 0
                   \<or> get_not_rollbacked_deposit_amount q dt_gt dt_lt > 0
                   \<or> get_not_rollbacked_withdraw_amount q dt_gt dt_lt > 0
                   \<or> get_transactions_count q dt_gt dt_lt > 0
                   \<or> get_not_rollbacked_transactions_count q dt_gt dt_lt > 0)"
  proof (intro ballI, clarify)
    fix a b assume m: "(a, b) \<in> set (scanned today weeks)"
    have "entry q a b \<in> set results \<longleftrightarrow>
            (\<exists>x \<in> set (scanned today weeks).
               any_positive q (fst x) (snd x) \<and> entry q a b = entry q (fst x) (snd x))"
      unfolding eq by (simp add: image_iff case_prod_beta Bex_def)
    also have "\<dots> \<longleftrightarrow> any_positive q a b"
      unfolding inj using m by force
    finally have "entry q a b \<in> set results \<longleftrightarrow> any_positive q a b" .
    then show "entry q a b \<in> set results \<longleftrightarrow>
                  (get_registered_users_count q a b > 0
                   \<or> get_registered_and_deposit_users_count q a b > 0
                   \<or> get_registered_and_not_rollbacked_deposit_users_count q a b > 0
                   \<or> get_not_rollbacked_deposit_amount q a b > 0
                   \<or> get_not_rollbacked_withdraw_amount q a b > 0
                   \<or> get_transactions_count q a b > 0
                   \<or> get_not_rollbacked_transactions_count q a b > 0)"
      by (simp add: any_positive_def)
  qed
qed

theorem emitted_iff_positive_witness:
  "(0::int) \<le> 3 \<and> (1::int) \<le> 739000 - 14 * 3 \<and> (739000::int) \<le> 3652059
   \<and> get_transaction_analysis (registrations_only [738990]) 739000 3 =
       Inr [entry (registrations_only [738990]) 738979 739000,
            entry (registrations_only [738990]) 738972 738993]
   \<and> scanned 739000 3 = [(738979, 739000), (738972, 738993), (738965, 738986)]
   \<and> get_registered_users_count (registrations_only [738990]) 738972 738993 > 0
   \<and> \<not> any_positive (registrations_only [738990]) 738965 738986"
proof -
  let ?q = "registrations_only [738990]"
  have h: "(0::int) \<le> 3 \<and> (1::int) \<le> 739000 - 14 * 3 \<and> (739000::int) \<le> 3652059"
    by simp
  have sc: "scanned 739000 3 = [(738979, 739000), (738972, 738993), (738965, 738986)]"
    by (simp add: scanned_def numeral_3_eq_3)
  have p1: "any_positive ?q 738979 739000" and p2: "any_positive ?q 738972 738993"
    and p3: "\<not> any_positive ?q 738965 738986"
    by (simp_all add: any_positive_def registrations_only_def)
  from emitted_iff_positive [of 3 739000 ?q] h
  obtain results where r: "get_transaction_analysis ?q 739000 3 = Inr results"
    by blast
  with emitted_iff_positive [of 3 739000 ?q]
  have "results = map (\<lambda>(dt_gt, dt_lt). entry ?q dt_gt dt_lt)
                        (filter (\<lambda>(dt_gt, dt_lt). any_positive ?q dt_gt dt_lt)
                           (scanned 739000 3))"
    by blast
  then have "results = [entry ?q 738979 739000, entry ?q 738972 738993]"
    unfolding sc using p1 p2 p3 by simp
  with r have e: "get_transaction_analysis ?q 739000 3 =
       Inr [entry ?q 738979 739000, entry ?q 738972 738993]" by simp
  have g: "get_registered_users_count ?q 738972 738993 > 0"
    by (simp add: registrations_only_def)
  from h e sc g p3 show ?thesis by blast
qed

text \<open>
  C8: the handler of \<^verbatim>\<open>GET /transactions/analysis\<close> called with \<open>weeks = 3\<close>. It
  queues the task without an argument, so the task runs with its default of 52 weeks
  where the claim asks for a window of 3.
\<close>

theorem analysis_request_ignores_weeks:
  "main_get_transaction_analysis (Some 3) = None
   \<and> generate_transaction_analysis_task q today (main_get_transaction_analysis (Some 3)) =
       get_transaction_analysis q today 52"
  by (simp add: main_get_transaction_analysis_def generate_transaction_analysis_task_def)

end
